theory Spec2Isabelle
  imports Complex_Main "HOL-Library.Multiset" "HOL-Library.Char_ord" "HOL-Library.List_Lexorder"
    "HOL-Library.Product_Lexorder"
begin

section \<open>Python strings\<close>

text \<open>
  Strings are lists of characters, a character being a code point below 256. The white
  space that \<^verbatim>\<open>strip()\<close> removes is the one of Python in that range: the codes 9 to
  13, 28 to 32, 133 and 160. Letters and case are those of ASCII: the model of
  \<^verbatim>\<open>isalpha()\<close>, \<^verbatim>\<open>lower()\<close> and \<^verbatim>\<open>title()\<close> is the one of Python on ASCII text
  (\<open>ascii\<close>) only, and what is proved of a name is proved of ASCII names.
\<close>

definition ord :: "char \<Rightarrow> nat" where
  "ord c = of_char c"

definition is_upper :: "char \<Rightarrow> bool" where
  "is_upper c = (65 \<le> ord c \<and> ord c \<le> 90)"

definition is_lower :: "char \<Rightarrow> bool" where
  "is_lower c = (97 \<le> ord c \<and> ord c \<le> 122)"

definition is_alpha :: "char \<Rightarrow> bool" where
  "is_alpha c = (is_upper c \<or> is_lower c)"

definition is_space :: "char \<Rightarrow> bool" where
  "is_space c = ((9 \<le> ord c \<and> ord c \<le> 13) \<or> (28 \<le> ord c \<and> ord c \<le> 32)
                 \<or> ord c = 133 \<or> ord c = 160)"


definition lower_char :: "char \<Rightarrow> char" where
  "lower_char c = (if is_upper c then char_of (ord c + 32) else c)"

definition upper_char :: "char \<Rightarrow> char" where
  "upper_char c = (if is_lower c then char_of (ord c - 32) else c)"

text \<open>\<^verbatim>\<open>s.lower()\<close>\<close>

definition lower :: "string \<Rightarrow> string" where
  "lower s = map lower_char s"

text \<open>\<^verbatim>\<open>s.strip()\<close>\<close>

definition strip :: "string \<Rightarrow> string" where
  "strip s = rev (dropWhile is_space (rev (dropWhile is_space s)))"

text \<open>\<^verbatim>\<open>s.startswith(p)\<close> and \<^verbatim>\<open>s.endswith(p)\<close>\<close>

definition startswith :: "string \<Rightarrow> string \<Rightarrow> bool" where
  "startswith s p = (take (length p) s = p)"

definition endswith :: "string \<Rightarrow> string \<Rightarrow> bool" where
  "endswith s p = startswith (rev s) (rev p)"

text \<open>\<^verbatim>\<open>p in s\<close>: \<open>p\<close> occurs in \<open>s\<close> as a contiguous substring.\<close>

fun contains :: "string \<Rightarrow> string \<Rightarrow> bool" where
  "contains [] p = (p = [])"
| "contains (c # cs) p = (startswith (c # cs) p \<or> contains cs p)"

text \<open>
  \<^verbatim>\<open>s.title()\<close>: a letter that follows a cased character is lowered, any other
  letter is raised. The flag is Python's \<^verbatim>\<open>previous_is_cased\<close>.
\<close>

fun title_from :: "bool \<Rightarrow> string \<Rightarrow> string" where
  "title_from prev [] = []"
| "title_from prev (c # cs) =
     (if prev then lower_char c else upper_char c) # title_from (is_alpha c) cs"

definition title :: "string \<Rightarrow> string" where
  "title s = title_from False s"

text \<open>\<^verbatim>\<open>s.isalpha()\<close>: at least one character, all of them letters.\<close>

definition isalpha :: "string \<Rightarrow> bool" where
  "isalpha s = (s \<noteq> [] \<and> list_all is_alpha s)"

text \<open>
  \<^verbatim>\<open>s.split(sep)[0]\<close> for a separator of one character: the text before the first
  separator, the whole string when there is none.
\<close>

definition split_first :: "char \<Rightarrow> string \<Rightarrow> string" where
  "split_first sep s = takeWhile (\<lambda>c. c \<noteq> sep) s"

text \<open>\<^verbatim>\<open>s.split(sep)[-1]\<close>: the text after the last separator.\<close>

definition split_last :: "char \<Rightarrow> string \<Rightarrow> string" where
  "split_last sep s = rev (takeWhile (\<lambda>c. c \<noteq> sep) (rev s))"

text \<open>\<^verbatim>\<open>s.replace(old, '')\<close> for a non-empty \<open>old\<close>: every occurrence, found from the
  left and not overlapping, is removed.\<close>

fun remove_all :: "string \<Rightarrow> string \<Rightarrow> string" where
  "remove_all old [] = []"
| "remove_all old (c # cs) =
     (if old \<noteq> [] \<and> startswith (c # cs) old
      then remove_all old (drop (length old) (c # cs))
      else c # remove_all old cs)"

section \<open>Cells and grids\<close>

text \<open>
  \<^verbatim>\<open>pd.read_excel(..., header=None)\<close> gives a frame of untyped cells: text, a number,
  or the missing value NaN. A frame is the list of its rows; a row shorter than the frame
  is padded with NaN, as pandas does, so a cell that is absent reads as \<open>Blank\<close>.
  Numbers are exact rationals here; the rounding of binary floating point is not modelled.
\<close>

datatype cell = Text string | Number rat | Blank

type_synonym dataframe = "cell list list"

text \<open>
  What the pandas and Python library does and the source leaves to it is a parameter of the
  model: the text \<^verbatim>\<open>str()\<close> gives for a number, the number \<^verbatim>\<open>pd.to_numeric\<close>
  reads from a text (if any), the date the format-free \<^verbatim>\<open>pd.to_datetime\<close> reads
  from a text (if any), and the offset from UTC, in minutes, that this date carries when
  the text names a time zone.
\<close>

record date =
  year :: nat
  month :: nat
  day :: nat

record library =
  str_number :: "rat \<Rightarrow> string"
  numeric_text :: "string \<Rightarrow> rat option"
  flexible_date :: "string \<Rightarrow> date option"
  utc_offset :: "string \<Rightarrow> int option"

text \<open>\<^verbatim>\<open>len(df.columns)\<close>\<close>

definition ncols :: "dataframe \<Rightarrow> nat" where
  "ncols df = foldr (\<lambda>row n. max (length row) n) df 0"

text \<open>\<^verbatim>\<open>df.iloc[r, c]\<close> for \<open>r < len(df)\<close> and \<open>c < len(df.columns)\<close>\<close>

definition iloc :: "dataframe \<Rightarrow> nat \<Rightarrow> nat \<Rightarrow> cell" where
  "iloc df r c = (if r < length df \<and> c < length (df ! r) then df ! r ! c else Blank)"

text \<open>\<^verbatim>\<open>str(v)\<close> of a cell\<close>

fun str :: "library \<Rightarrow> cell \<Rightarrow> string" where
  "str L (Text s) = s"
| "str L (Number q) = str_number L q"
| "str L Blank = ''nan''"

section \<open>HeaderLocator: \<^verbatim>\<open>detect_headers\<close>\<close>

definition date_keywords :: "string list" where
  "date_keywords = [''date'', ''day'', ''datum'', ''fecha'']"

definition hours_keywords :: "string list" where
  "hours_keywords = [''hour'', ''time'', ''work'', ''duration'', ''hrs'', ''horas'']"

text \<open>\<^verbatim>\<open>any(keyword in cell_val for keyword in kws)\<close>\<close>

definition any_keyword :: "string list \<Rightarrow> string \<Rightarrow> bool" where
  "any_keyword kws cell_val = list_ex (\<lambda>keyword. contains cell_val keyword) kws"

text \<open>The four variables of the inner loop.\<close>

record row_scan =
  row_has_date :: bool
  row_has_hours :: bool
  temp_date_col :: "nat option"
  temp_hours_col :: "nat option"

definition scan_init :: row_scan where
  "scan_init = \<lparr>row_has_date = False, row_has_hours = False,
                 temp_date_col = None, temp_hours_col = None\<rparr>"

text \<open>One pass of the body of \<^verbatim>\<open>for c in range(len(df.columns))\<close>.\<close>

definition scan_cell :: "library \<Rightarrow> dataframe \<Rightarrow> nat \<Rightarrow> row_scan \<Rightarrow> nat \<Rightarrow> row_scan" where
  "scan_cell L df r st c =
     (if r \<ge> length df \<or> c \<ge> ncols df then st
      else
        let cell_val = strip (lower (str L (iloc df r c)));
            st1 = (if any_keyword date_keywords cell_val
                   then st\<lparr>temp_date_col := Some c, row_has_date := True\<rparr> else st);
            st2 = (if any_keyword hours_keywords cell_val
                   then st1\<lparr>temp_hours_col := Some c, row_has_hours := True\<rparr> else st1)
        in st2)"

definition scan_row :: "library \<Rightarrow> dataframe \<Rightarrow> nat \<Rightarrow> row_scan" where
  "scan_row L df r = foldl (scan_cell L df r) scan_init [0..<ncols df]"

text \<open>The outer loop over the rows still to visit, with its \<^verbatim>\<open>break\<close>.\<close>

fun scan_rows :: "library \<Rightarrow> dataframe \<Rightarrow> nat list \<Rightarrow> nat option \<times> nat option \<times> nat option" where
  "scan_rows L df [] = (None, None, None)"
| "scan_rows L df (r # rs) =
     (let st = scan_row L df r
      in if row_has_date st \<and> row_has_hours st
         then (Some r, temp_date_col st, temp_hours_col st)
         else scan_rows L df rs)"

definition detect_headers :: "library \<Rightarrow> dataframe \<Rightarrow> nat option \<times> nat option \<times> nat option" where
  "detect_headers L df = scan_rows L df [0..<min 10 (length df)]"

text \<open>The vocabulary of the specification of HeaderLocator.\<close>

definition cell_text :: "library \<Rightarrow> dataframe \<Rightarrow> nat \<Rightarrow> nat \<Rightarrow> string" where
  "cell_text L df r c = strip (lower (str L (iloc df r c)))"

definition date_candidates :: "library \<Rightarrow> dataframe \<Rightarrow> nat \<Rightarrow> nat list" where
  "date_candidates L df r =
     filter (\<lambda>c. any_keyword date_keywords (cell_text L df r c)) [0..<ncols df]"

definition hours_candidates :: "library \<Rightarrow> dataframe \<Rightarrow> nat \<Rightarrow> nat list" where
  "hours_candidates L df r =
     filter (\<lambda>c. any_keyword hours_keywords (cell_text L df r c)) [0..<ncols df]"

definition qualifies :: "library \<Rightarrow> dataframe \<Rightarrow> nat \<Rightarrow> bool" where
  "qualifies L df r = (date_candidates L df r \<noteq> [] \<and> hours_candidates L df r \<noteq> [])"

text \<open>A library to run the model on concrete inputs.\<close>

definition demo_library :: library where
  "demo_library = \<lparr>str_number = (\<lambda>q. ''0''), numeric_text = (\<lambda>s. None),
                    flexible_date = (\<lambda>s. None), utc_offset = (\<lambda>s. None)\<rparr>"

definition demo_grid :: dataframe where
  "demo_grid =
     [[Text ''Timesheet'', Blank],
      [Text '' Date '', Text ''Hours'', Text ''Work Date'']]"

section \<open>NameInferer: \<^verbatim>\<open>extract_developer_name\<close>\<close>

text \<open>The two statements that remove the path and the extension.\<close>

definition base_name :: "string \<Rightarrow> string" where
  "base_name filename =
     remove_all ''.xls'' (remove_all ''.xlsx'' (split_last CHR ''/'' filename))"

text \<open>The first word: before the first underscore, then before the first space.\<close>

definition first_word :: "string \<Rightarrow> string" where
  "first_word b =
     (let first_words = strip (split_first CHR ''_'' b)
      in strip (split_first CHR '' '' first_words))"

definition extract_developer_name :: "string \<Rightarrow> string" where
  "extract_developer_name filename =
     (let b = base_name filename
      in if contains b ''*'' then title (strip (split_first CHR ''*'' b))
         else if first_word b \<noteq> [] \<and> isalpha (first_word b) then title (first_word b)
         else ''Unknown'')"


section \<open>EntryFilter: \<^verbatim>\<open>is_valid_excel_file\<close>\<close>

definition is_valid_excel_file :: "string \<Rightarrow> bool" where
  "is_valid_excel_file filename =
     (if startswith filename ''__MACOSX/'' \<or> contains filename ''._'' then False
      else if startswith filename ''.'' \<or> contains filename ''/.DS_Store'' then False
      else if \<not> (endswith (lower filename) ''.xlsx'' \<or> endswith (lower filename) ''.xls'')
        then False
      else if endswith filename ''/'' then False
      else True)"

section \<open>DateNormalizer: \<^verbatim>\<open>clean_and_parse_date\<close>\<close>

subsection \<open>Calendar dates\<close>

definition is_leap :: "nat \<Rightarrow> bool" where
  "is_leap y = (y mod 4 = 0 \<and> (y mod 100 \<noteq> 0 \<or> y mod 400 = 0))"

definition days_in_month :: "nat \<Rightarrow> nat \<Rightarrow> nat" where
  "days_in_month y m =
     (if m = 2 then (if is_leap y then 29 else 28)
      else if m = 4 \<or> m = 6 \<or> m = 9 \<or> m = 11 then 30 else 31)"

definition valid_date :: "date \<Rightarrow> bool" where
  "valid_date d = (1 \<le> year d \<and> year d \<le> 9999 \<and> 1 \<le> month d \<and> month d \<le> 12 \<and>
                   1 \<le> day d \<and> day d \<le> days_in_month (year d) (month d))"

text \<open>
  The days a pandas \<^verbatim>\<open>Timestamp\<close> of nanosecond resolution can hold at midnight:
  1677-09-22 to 2262-04-11. A date outside makes \<^verbatim>\<open>pd.to_datetime\<close> raise.
\<close>

definition timestamp_range :: "date \<Rightarrow> bool" where
  "timestamp_range d =
     ((1677, 9, 22) \<le> (year d, month d, day d) \<and> (year d, month d, day d) \<le> (2262, 4, 11))"

definition month_names :: "string list" where
  "month_names = [''January'', ''February'', ''March'', ''April'', ''May'', ''June'', ''July'',
                  ''August'', ''September'', ''October'', ''November'', ''December'']"

definition month_abbrs :: "string list" where
  "month_abbrs = [''Jan'', ''Feb'', ''Mar'', ''Apr'', ''May'', ''Jun'', ''Jul'',
                  ''Aug'', ''Sep'', ''Oct'', ''Nov'', ''Dec'']"

text \<open>\<^verbatim>\<open>dt.month_name()\<close>, for a month from 1 to 12\<close>

definition month_name :: "nat \<Rightarrow> string" where
  "month_name m = month_names ! (m - 1)"

definition month_abbr :: "nat \<Rightarrow> string" where
  "month_abbr m = month_abbrs ! (m - 1)"

subsection \<open>Decimal digits\<close>

definition is_digit :: "char \<Rightarrow> bool" where
  "is_digit c = (48 \<le> ord c \<and> ord c \<le> 57)"

definition digit_val :: "char \<Rightarrow> nat" where
  "digit_val c = ord c - 48"

definition digit_char :: "nat \<Rightarrow> char" where
  "digit_char n = char_of (48 + n)"

definition pad2 :: "nat \<Rightarrow> string" where
  "pad2 n = [digit_char (n div 10 mod 10), digit_char (n mod 10)]"

definition pad4 :: "nat \<Rightarrow> string" where
  "pad4 n = [digit_char (n div 1000 mod 10), digit_char (n div 100 mod 10),
             digit_char (n div 10 mod 10), digit_char (n mod 10)]"

text \<open>\<^verbatim>\<open>str(n)\<close> of a natural number\<close>

fun decimal :: "nat \<Rightarrow> string" where
  "decimal n = (if n < 10 then [digit_char n] else decimal (n div 10) @ [digit_char (n mod 10)])"

declare decimal.simps [simp del]

subsection \<open>Format strings\<close>

text \<open>
  The directives of the ten patterns of \<^verbatim>\<open>date_formats\<close>; any other directive is
  \<open>Bad\<close> and matches nothing, as \<^verbatim>\<open>strptime\<close> raises on it.
\<close>

datatype directive = Year4 | Month2 | Day2 | MonthFull | MonthAbbr | Lit char | Bad

definition directive_of :: "char \<Rightarrow> directive" where
  "directive_of c =
     (if c = CHR ''Y'' then Year4 else if c = CHR ''m'' then Month2
      else if c = CHR ''d'' then Day2 else if c = CHR ''B'' then MonthFull
      else if c = CHR ''b'' then MonthAbbr else if c = CHR ''%'' then Lit c else Bad)"

fun compile :: "string \<Rightarrow> directive list" where
  "compile [] = []"
| "compile [c] = [if c = CHR ''%'' then Bad else Lit c]"
| "compile (c # e # cs) =
     (if c = CHR ''%'' then directive_of e # compile cs else Lit c # compile (e # cs))"

text \<open>\<^verbatim>\<open>d.strftime(fmt)\<close>, for a date whose year has four digits\<close>

fun emit :: "date \<Rightarrow> directive \<Rightarrow> string" where
  "emit d Year4 = pad4 (year d)"
| "emit d Month2 = pad2 (month d)"
| "emit d Day2 = pad2 (day d)"
| "emit d MonthFull = month_name (month d)"
| "emit d MonthAbbr = month_abbr (month d)"
| "emit d (Lit c) = [c]"
| "emit d Bad = []"

definition strftime :: "string \<Rightarrow> date \<Rightarrow> string" where
  "strftime fmt d = concat (map (emit d) (compile fmt))"

subsection \<open>Parsing with a format\<close>

text \<open>
  \<^verbatim>\<open>pd.to_datetime(s, format=fmt)\<close> matches \<open>s\<close> against the regular expression of the
  format, as \<^verbatim>\<open>strptime\<close> does, ignoring case: \<^verbatim>\<open>%Y\<close> is \<^verbatim>\<open>\d\d\d\d\<close>, \<^verbatim>\<open>%m\<close> is
  \<^verbatim>\<open>1[0-2]|0[1-9]|[1-9]\<close>, \<^verbatim>\<open>%d\<close> is \<^verbatim>\<open>3[0-1]|[1-2]\d|0[1-9]|[1-9]| [1-9]\<close>,
  \<^verbatim>\<open>%B\<close> and \<^verbatim>\<open>%b\<close> are the English month names and their abbreviations, a blank of
  the format is \<^verbatim>\<open>\s+\<close>, any other character is itself. For each directive, \<open>alts\<close>
  lists the ways it can match at the start of a text, in the order the regular expression
  tries them: the value read and the text that is left.
\<close>

definition between :: "char \<Rightarrow> char \<Rightarrow> char \<Rightarrow> bool" where
  "between a b c = (ord a \<le> ord c \<and> ord c \<le> ord b)"

definition two :: "(char \<Rightarrow> bool) \<Rightarrow> (char \<Rightarrow> bool) \<Rightarrow> string \<Rightarrow> (nat \<times> string) list" where
  "two P Q s =
     (case s of
        c1 # c2 # rest \<Rightarrow> if P c1 \<and> Q c2 then [(10 * digit_val c1 + digit_val c2, rest)] else []
      | _ \<Rightarrow> [])"

definition one :: "(char \<Rightarrow> bool) \<Rightarrow> string \<Rightarrow> (nat \<times> string) list" where
  "one P s = (case s of c # rest \<Rightarrow> if P c then [(digit_val c, rest)] else [] | _ \<Rightarrow> [])"

definition blank_one :: "string \<Rightarrow> (nat \<times> string) list" where
  "blank_one s =
     (case s of
        c1 # c2 # rest \<Rightarrow>
          if c1 = CHR '' '' \<and> between CHR ''1'' CHR ''9'' c2 then [(digit_val c2, rest)] else []
      | _ \<Rightarrow> [])"

text \<open>The names of a list that start the text, with their number from 1.\<close>

definition named :: "string list \<Rightarrow> string \<Rightarrow> (nat \<times> string) list" where
  "named names s =
     concat (map (\<lambda>(i, n). if lower (take (length n) s) = lower n
                            then [(Suc i, drop (length n) s)] else [])
                 (enumerate 0 names))"

text \<open>\<^verbatim>\<open>\s+\<close>: the longest run of blanks first, then the shorter ones.\<close>

definition blanks :: "string \<Rightarrow> (nat \<times> string) list" where
  "blanks s = map (\<lambda>n. (0, drop n s)) (rev [1..<Suc (length (takeWhile is_space s))])"

fun alts :: "directive \<Rightarrow> string \<Rightarrow> (nat \<times> string) list" where
  "alts Year4 s =
     (if 4 \<le> length s \<and> list_all is_digit (take 4 s)
      then [(1000 * digit_val (s ! 0) + 100 * digit_val (s ! 1) + 10 * digit_val (s ! 2)
               + digit_val (s ! 3), drop 4 s)]
      else [])"
| "alts Month2 s =
     two (\<lambda>c. c = CHR ''1'') (between CHR ''0'' CHR ''2'') s
     @ two (\<lambda>c. c = CHR ''0'') (between CHR ''1'' CHR ''9'') s
     @ one (between CHR ''1'' CHR ''9'') s"
| "alts Day2 s =
     two (\<lambda>c. c = CHR ''3'') (between CHR ''0'' CHR ''1'') s
     @ two (between CHR ''1'' CHR ''2'') is_digit s
     @ two (\<lambda>c. c = CHR ''0'') (between CHR ''1'' CHR ''9'') s
     @ one (between CHR ''1'' CHR ''9'') s
     @ blank_one s"
| "alts MonthFull s = named month_names s"
| "alts MonthAbbr s = named month_abbrs s"
| "alts (Lit c) s =
     (if is_space c then blanks s
      else case s of x # rest \<Rightarrow> if lower_char x = lower_char c then [(0, rest)] else []
           | [] \<Rightarrow> [])"
| "alts Bad s = []"

text \<open>The fields read so far: year, month, day; \<^verbatim>\<open>strptime\<close> starts from 1900-01-01.\<close>

fun store :: "directive \<Rightarrow> nat \<Rightarrow> nat \<times> nat \<times> nat \<Rightarrow> nat \<times> nat \<times> nat" where
  "store Year4 v (y, m, d) = (v, m, d)"
| "store Month2 v (y, m, d) = (y, v, d)"
| "store MonthFull v (y, m, d) = (y, v, d)"
| "store MonthAbbr v (y, m, d) = (y, v, d)"
| "store Day2 v (y, m, d) = (y, m, v)"
| "store (Lit c) v (y, m, d) = (y, m, d)"
| "store Bad v (y, m, d) = (y, m, d)"

text \<open>All the matches of a list of directives at the start of a text, the one the regular
  expression finds first at the head.\<close>

fun all_matches :: "directive list \<Rightarrow> nat \<times> nat \<times> nat \<Rightarrow> string \<Rightarrow> ((nat \<times> nat \<times> nat) \<times> string) list" where
  "all_matches [] acc s = [(acc, s)]"
| "all_matches (x # xs) acc s =
     concat (map (\<lambda>(v, rest). all_matches xs (store x v acc) rest) (alts x s))"

text \<open>
  \<^verbatim>\<open>pd.to_datetime(s, format=fmt)\<close>: \<open>None\<close> where it raises, which is when the text does
  not match, when text is left after the match, when the day does not exist in the month,
  and when the date is outside the range of a \<^verbatim>\<open>Timestamp\<close>.
\<close>

definition to_datetime :: "string \<Rightarrow> string \<Rightarrow> date option" where
  "to_datetime s fmt =
     (case all_matches (compile fmt) (1900, 1, 1) s of
        [] \<Rightarrow> None
      | ((y, m, d), rest) # _ \<Rightarrow>
          let v = \<lparr>year = y, month = m, day = d\<rparr>
          in if rest = [] \<and> valid_date v \<and> timestamp_range v then Some v else None)"

definition date_formats :: "string list" where
  "date_formats =
     [''%Y-%m-%d'', ''%m/%d/%Y'', ''%d/%m/%Y'', ''%m-%d-%Y'', ''%d-%m-%Y'', ''%Y/%m/%d'',
      ''%B %d, %Y'', ''%b %d, %Y'', ''%d %B %Y'', ''%d %b %Y'']"

text \<open>The loop \<^verbatim>\<open>for fmt in date_formats\<close>: the first format that does not raise.\<close>

fun try_formats :: "string \<Rightarrow> string list \<Rightarrow> date option" where
  "try_formats s [] = None"
| "try_formats s (fmt # fmts) =
     (case to_datetime s fmt of Some d \<Rightarrow> Some d | None \<Rightarrow> try_formats s fmts)"

text \<open>The texts that pandas reads as the missing date \<^verbatim>\<open>NaT\<close> without raising.\<close>

definition nat_strings :: "string list" where
  "nat_strings = [''NaT'', ''nat'', ''NAT'', ''nan'', ''NaN'', ''NAN'']"

definition clean_and_parse_date :: "library \<Rightarrow> cell \<Rightarrow> date option" where
  "clean_and_parse_date L date_val =
     (if date_val = Blank then None
      else
        let date_str = strip (str L date_val)
        in if date_str = [] \<or> date_str \<in> set nat_strings then None
           else case try_formats date_str date_formats of
                  Some d \<Rightarrow> Some d
                | None \<Rightarrow> flexible_date L date_str)"

text \<open>
  The time zone of a date that is read. The ten formats have no directive for a zone, so
  a date read with one of them has none; a date read by the format-free parse has the
  offset that the library finds in its text. The result is \<open>None\<close> when no date is read.
\<close>

definition parsed_zone :: "library \<Rightarrow> cell \<Rightarrow> int option option" where
  "parsed_zone L date_val =
     (if clean_and_parse_date L date_val = None then None
      else if try_formats (strip (str L date_val)) date_formats \<noteq> None then Some None
      else Some (utc_offset L (strip (str L date_val))))"

text \<open>
  The column that \<^verbatim>\<open>apply(clean_and_parse_date)\<close> returns is a column of dates, on which
  \<^verbatim>\<open>.dt\<close> works, when the dates it holds are all without zone or all of one offset;
  otherwise it is a column of objects, and \<^verbatim>\<open>.dt\<close> raises.
\<close>

definition datetimelike :: "library \<Rightarrow> cell list \<Rightarrow> bool" where
  "datetimelike L date_data = (length (remdups (List.map_filter (parsed_zone L) date_data)) \<le> 1)"

section \<open>RecordExtractor: \<^verbatim>\<open>extract_data_from_xlsx\<close>\<close>

text \<open>One row of the frame that the extraction returns, with its seven columns.\<close>

record timesheet_row =
  Date :: date
  Hours :: rat
  Developer :: string
  YearMonth :: "nat \<times> nat"
  Year :: nat
  Month :: nat
  MonthName :: string

text \<open>\<^verbatim>\<open>pd.to_numeric(v, errors='coerce')\<close> of one cell; \<open>None\<close> is NaN.\<close>

fun to_numeric :: "library \<Rightarrow> cell \<Rightarrow> rat option" where
  "to_numeric L (Number q) = Some q"
| "to_numeric L (Text s) = numeric_text L s"
| "to_numeric L Blank = None"

text \<open>\<^verbatim>\<open>df.empty\<close>\<close>

definition empty_frame :: "dataframe \<Rightarrow> bool" where
  "empty_frame df = (length df = 0 \<or> ncols df = 0)"

text \<open>\<^verbatim>\<open>data.dropna(subset=['Date', 'Hours'])\<close>\<close>

fun dropna :: "(date option \<times> rat option) list \<Rightarrow> (date \<times> rat) list" where
  "dropna [] = []"
| "dropna ((Some d, Some h) # rows) = (d, h) # dropna rows"
| "dropna (_ # rows) = dropna rows"

text \<open>The columns added to a row that is kept.\<close>

definition make_row :: "string \<Rightarrow> date \<times> rat \<Rightarrow> timesheet_row" where
  "make_row dev_name p =
     \<lparr>Date = fst p, Hours = snd p, Developer = dev_name,
      YearMonth = (year (fst p), month (fst p)), Year = year (fst p), Month = month (fst p),
      MonthName = month_name (month (fst p))\<rparr>"

text \<open>
  The workbook is what \<^verbatim>\<open>pd.read_excel\<close> makes of the bytes: the message of the
  exception it raises, or a frame. The result is the pair of the source with its \<open>None\<close>
  left out: the error message, or the rows. The \<^verbatim>\<open>try\<close> of the source covers the whole
  body: besides \<^verbatim>\<open>read_excel\<close>, the statement that raises is the first \<^verbatim>\<open>.dt\<close>, on a
  date column that is not a column of dates.
\<close>

type_synonym workbook = "string + dataframe"

definition extract_data_from_xlsx :: "library \<Rightarrow> workbook \<Rightarrow> string \<Rightarrow> string + timesheet_row list" where
  "extract_data_from_xlsx L wb file_name =
     (case wb of
        Inl e \<Rightarrow> Inl (''Error processing '' @ file_name @ '': '' @ e)
      | Inr df \<Rightarrow>
          if empty_frame df then Inl (''Empty file: '' @ file_name)
          else
            (case detect_headers L df of
              (Some header_row, Some date_col, Some hours_col) \<Rightarrow>
                let data_start_row = header_row + 1
                in if data_start_row \<ge> length df
                   then Inl (''No data rows found after header in: '' @ file_name)
                   else
                     let date_data = map (\<lambda>r. iloc df r date_col) [data_start_row..<length df];
                         hours_data = map (\<lambda>r. iloc df r hours_col) [data_start_row..<length df];
                         data = zip (map (clean_and_parse_date L) date_data)
                                    (map (to_numeric L) hours_data);
                         data = dropna data;
                         data = filter (\<lambda>p. snd p > 0) data
                     in if data = []
                        then Inl (''No valid date/hours data found in: '' @ file_name)
                        else if \<not> datetimelike L date_data
                        then Inl (''Error processing '' @ file_name
                                  @ '': Can only use .dt accessor with datetimelike values'')
                        else Inr (map (make_row (extract_developer_name file_name)) data)
            | _ \<Rightarrow> Inl (''Could not detect date/hours columns in: '' @ file_name)))"

section \<open>BatchProcessor: \<^verbatim>\<open>process_zip_file\<close>\<close>

text \<open>
  A member of the archive either cannot be read (\<^verbatim>\<open>zip_file.open\<close> or \<^verbatim>\<open>read\<close> raises,
  with a message) or gives bytes, which stand here as the workbook they load to. The
  archive is the message of the exception that opening it raises, or the list of its
  members by name, in the order of \<^verbatim>\<open>namelist()\<close>.
\<close>

datatype member = Unreadable string | Readable workbook

type_synonym archive = "string + (string \<times> member) list"

text \<open>\<^verbatim>\<open>zip_file.open(file_name)\<close>: of several members of one name, the last one.\<close>

definition open_member :: "(string \<times> member) list \<Rightarrow> string \<Rightarrow> member" where
  "open_member entries file_name =
     (case map_of (rev entries) file_name of
        Some m \<Rightarrow> m
      | None \<Rightarrow> Unreadable (''There is no item named '' @ file_name @ '' in the archive''))"

text \<open>The three lists that the loop over \<^verbatim>\<open>xlsx_files\<close> appends to.\<close>

record batch =
  all_data :: "timesheet_row list list"
  error_messages :: "string list"
  processed_files :: "string list"

definition process_entry :: "library \<Rightarrow> (string \<times> member) list \<Rightarrow> batch \<Rightarrow> string \<Rightarrow> batch" where
  "process_entry L entries st file_name =
     (case open_member entries file_name of
        Unreadable e \<Rightarrow>
          st\<lparr>error_messages := error_messages st @ [''Could not read '' @ file_name @ '': '' @ e]\<rparr>
      | Readable file_bytes \<Rightarrow>
          (case extract_data_from_xlsx L file_bytes file_name of
             Inr data \<Rightarrow> st\<lparr>all_data := all_data st @ [data],
                            processed_files := processed_files st @ [file_name]\<rparr>
           | Inl error \<Rightarrow> st\<lparr>error_messages := error_messages st @ [error]\<rparr>))"

text \<open>The result: the combined rows, the errors, the processed files, the skipped files.\<close>

definition process_zip_file :: "library \<Rightarrow> archive \<Rightarrow> timesheet_row list \<times> string list \<times> string list \<times> string list" where
  "process_zip_file L uploaded_file =
     (case uploaded_file of
        Inl e \<Rightarrow> ([], [''Error reading ZIP file: '' @ e], [], [])
      | Inr entries \<Rightarrow>
          let all_files = map fst entries;
              xlsx_files = filter is_valid_excel_file all_files;
              skipped_files = filter (\<lambda>f. (endswith f ''.xlsx'' \<or> endswith f ''.xls'')
                                            \<and> \<not> is_valid_excel_file f) all_files
          in if xlsx_files = []
             then ([], [''No valid XLSX files found in ZIP''], [], skipped_files)
             else
               let st = foldl (process_entry L entries)
                          \<lparr>all_data = [], error_messages = [], processed_files = []\<rparr> xlsx_files
               in (concat (all_data st), error_messages st, processed_files st, skipped_files))"

text \<open>What one eligible entry comes to: its error message, or its rows.\<close>

text \<open>A row of data is kept when its date is read, its hours are a number, and that
  number is above zero; \<open>kept_values\<close> are the date and the hours of such a row.\<close>

definition row_valid :: "library \<Rightarrow> dataframe \<Rightarrow> nat \<Rightarrow> nat \<Rightarrow> nat \<Rightarrow> bool" where
  "row_valid L df date_col hours_col r =
     (case (clean_and_parse_date L (iloc df r date_col), to_numeric L (iloc df r hours_col)) of
        (Some d, Some h) \<Rightarrow> 0 < h
      | _ \<Rightarrow> False)"


definition outcome :: "library \<Rightarrow> (string \<times> member) list \<Rightarrow> string \<Rightarrow> string + timesheet_row list" where
  "outcome L entries file_name =
     (case open_member entries file_name of
        Unreadable e \<Rightarrow> Inl (''Could not read '' @ file_name @ '': '' @ e)
      | Readable file_bytes \<Rightarrow> extract_data_from_xlsx L file_bytes file_name)"

definition succeeds :: "library \<Rightarrow> (string \<times> member) list \<Rightarrow> string \<Rightarrow> bool" where
  "succeeds L entries file_name = (\<not> isl (outcome L entries file_name))"

definition rows_of :: "library \<Rightarrow> (string \<times> member) list \<Rightarrow> string \<Rightarrow> timesheet_row list" where
  "rows_of L entries file_name = projr (outcome L entries file_name)"

definition error_of :: "library \<Rightarrow> (string \<times> member) list \<Rightarrow> string \<Rightarrow> string" where
  "error_of L entries file_name = projl (outcome L entries file_name)"

section \<open>Aggregator: \<^verbatim>\<open>create_monthly_summary\<close>\<close>

text \<open>One row of the summary, with its nine columns.\<close>

record summary_row =
  s_Developer :: string
  s_Year :: nat
  s_Month :: nat
  s_MonthName :: string
  s_YearMonth :: "nat \<times> nat"
  s_Hours :: rat
  s_WorkingDays :: nat
  s_YearMonthStr :: string
  s_MonthYear :: string

text \<open>The five columns of the \<^verbatim>\<open>groupby\<close>.\<close>

definition group_key :: "timesheet_row \<Rightarrow> string \<times> nat \<times> nat \<times> string \<times> (nat \<times> nat)" where
  "group_key x = (Developer x, Year x, Month x, MonthName x, YearMonth x)"

text \<open>
  The row of one group: the sum of its hours, the count of its dates, and the two labels
  that are added after \<^verbatim>\<open>reset_index\<close>.
\<close>

definition aggregate :: "timesheet_row list \<Rightarrow> string \<times> nat \<times> nat \<times> string \<times> (nat \<times> nat) \<Rightarrow> summary_row" where
  "aggregate df k =
     (case k of (dev, y, m, mname, ym) \<Rightarrow>
        let g = filter (\<lambda>x. group_key x = k) df
        in \<lparr>s_Developer = dev, s_Year = y, s_Month = m, s_MonthName = mname, s_YearMonth = ym,
            s_Hours = sum_list (map Hours g), s_WorkingDays = length g,
            s_YearMonthStr = pad4 (fst ym) @ ''-'' @ pad2 (snd ym),
            s_MonthYear = mname @ '' '' @ decimal y\<rparr>)"

text \<open>
  \<^verbatim>\<open>groupby\<close> gives one row for each key that occurs, the keys in ascending order;
  \<^verbatim>\<open>sort_values\<close> then sorts the rows by year, month and developer, keeping the order of
  rows that agree on the three.
\<close>

definition create_monthly_summary :: "timesheet_row list \<Rightarrow> summary_row list" where
  "create_monthly_summary df =
     (let summary = map (aggregate df) (sort (remdups (map group_key df)))
      in sort_key (\<lambda>b. (s_Year b, s_Month b, s_Developer b)) summary)"

section \<open>Example inputs\<close>



text \<open>The sheet of scenario A.\<close>

definition john_grid :: dataframe where
  "john_grid =
     [[Text ''Date'', Text ''Hours''],
      [Text ''2024-01-05'', Number 8],
      [Text ''2024-01-06'', Number (15 / 2)]]"

definition john_archive :: archive where
  "john_archive = Inr [(''john_timesheet.xlsx'', Readable (Inr john_grid))]"

text \<open>An archive with a sidecar file, a good sheet, a member that cannot be read and a
  sheet without header.\<close>

definition demo_entries :: "(string \<times> member) list" where
  "demo_entries =
     [(''__MACOSX/._john_timesheet.xlsx'', Unreadable ''sidecar''),
      (''john_timesheet.xlsx'', Readable (Inr john_grid)),
      (''mary_timesheet.xlsx'', Unreadable ''Bad CRC-32''),
      (''notes.xlsx'', Readable (Inr [[Text ''Timesheet'']]))]"

text \<open>The rows that scenario A produces.\<close>

definition john_rows :: "timesheet_row list" where
  "john_rows =
     [\<lparr>Date = \<lparr>year = 2024, month = 1, day = 5\<rparr>, Hours = 8, Developer = ''John'',
       YearMonth = (2024, 1), Year = 2024, Month = 1, MonthName = ''January''\<rparr>,
      \<lparr>Date = \<lparr>year = 2024, month = 1, day = 6\<rparr>, Hours = 15 / 2, Developer = ''John'',
       YearMonth = (2024, 1), Year = 2024, Month = 1, MonthName = ''January''\<rparr>]"



section \<open>Properties of HeaderLocator\<close>

lemma scan_cell_fields:
  assumes "r < length df" "c < ncols df"
  shows "row_has_date (scan_cell L df r st c) =
           (row_has_date st \<or> any_keyword date_keywords (cell_text L df r c))"
    and "temp_date_col (scan_cell L df r st c) =
           (if any_keyword date_keywords (cell_text L df r c) then Some c else temp_date_col st)"
    and "row_has_hours (scan_cell L df r st c) =
           (row_has_hours st \<or> any_keyword hours_keywords (cell_text L df r c))"
    and "temp_hours_col (scan_cell L df r st c) =
           (if any_keyword hours_keywords (cell_text L df r c) then Some c else temp_hours_col st)"
  using assms by (simp_all add: scan_cell_def cell_text_def Let_def)

text \<open>The inner loop, started in any state, on any list of columns of the frame.\<close>

lemma foldl_scan_cell:
  assumes "r < length df" "\<forall>c \<in> set cs. c < ncols df"
  shows "row_has_date (foldl (scan_cell L df r) st cs) =
           (row_has_date st \<or> filter (\<lambda>c. any_keyword date_keywords (cell_text L df r c)) cs \<noteq> [])"
    and "temp_date_col (foldl (scan_cell L df r) st cs) =
           (if filter (\<lambda>c. any_keyword date_keywords (cell_text L df r c)) cs = []
            then temp_date_col st
            else Some (last (filter (\<lambda>c. any_keyword date_keywords (cell_text L df r c)) cs)))"
    and "row_has_hours (foldl (scan_cell L df r) st cs) =
           (row_has_hours st \<or> filter (\<lambda>c. any_keyword hours_keywords (cell_text L df r c)) cs \<noteq> [])"
    and "temp_hours_col (foldl (scan_cell L df r) st cs) =
           (if filter (\<lambda>c. any_keyword hours_keywords (cell_text L df r c)) cs = []
            then temp_hours_col st
            else Some (last (filter (\<lambda>c. any_keyword hours_keywords (cell_text L df r c)) cs)))"
  using assms by (induction cs rule: rev_induct) (simp_all add: scan_cell_fields)

lemma scan_row_spec:
  assumes "r < length df"
  shows "row_has_date (scan_row L df r) = (date_candidates L df r \<noteq> [])"
    and "row_has_hours (scan_row L df r) = (hours_candidates L df r \<noteq> [])"
    and "date_candidates L df r \<noteq> [] \<Longrightarrow>
           temp_date_col (scan_row L df r) = Some (last (date_candidates L df r))"
    and "hours_candidates L df r \<noteq> [] \<Longrightarrow>
           temp_hours_col (scan_row L df r) = Some (last (hours_candidates L df r))"
  using assms
  by (simp_all add: scan_row_def foldl_scan_cell date_candidates_def hours_candidates_def
      scan_init_def)

lemma scan_rows_none:
  assumes "\<forall>r \<in> set rs. r < length df \<and> \<not> qualifies L df r"
  shows "scan_rows L df rs = (None, None, None)"
  using assms by (induction rs) (simp_all add: Let_def scan_row_spec qualifies_def)

lemma scan_rows_first:
  assumes "\<forall>r \<in> set (pre @ [r0]). r < length df" "\<forall>r \<in> set pre. \<not> qualifies L df r"
    "qualifies L df r0"
  shows "scan_rows L df (pre @ r0 # post) =
     (Some r0, Some (last (date_candidates L df r0)), Some (last (hours_candidates L df r0)))"
  using assms by (induction pre) (auto simp add: Let_def scan_row_spec qualifies_def)

lemma scan_rows_found:
  assumes "scan_rows L df rs = (Some r, dc, hc)" "\<forall>r \<in> set rs. r < length df"
  shows "r \<in> set rs \<and> qualifies L df r \<and> dc = Some (last (date_candidates L df r))
         \<and> hc = Some (last (hours_candidates L df r))"
  using assms
  by (induction rs) (auto simp add: Let_def scan_row_spec qualifies_def split: if_splits)

lemma detect_headers_found:
  assumes "detect_headers L df = (Some r, dc, hc)"
  shows "r < min 10 (length df) \<and> qualifies L df r
      \<and> dc = Some (last (date_candidates L df r))
      \<and> hc = Some (last (hours_candidates L df r))"
proof -
  have "r \<in> set [0..<min 10 (length df)] \<and> qualifies L df r
      \<and> dc = Some (last (date_candidates L df r))
      \<and> hc = Some (last (hours_candidates L df r))"
    using assms unfolding detect_headers_def by (intro scan_rows_found) auto
  then show ?thesis by simp
qed


text \<open>
  C1. \<^verbatim>\<open>detect_headers\<close> looks at the rows \<open>0 .. min 10 (length df) - 1\<close> only. It returns
  the first of them that has a cell with a date keyword and a cell with an hours keyword,
  with the last column of that row that has a date keyword and the last column that has an
  hours keyword; when no row of the window has both, it returns \<open>(None, None, None)\<close>.
\<close>

theorem detect_headers_first_row:
  "(r < min 10 (length df) \<and> qualifies L df r \<and> (\<forall>r' < r. \<not> qualifies L df r') \<longrightarrow>
      detect_headers L df =
        (Some r, Some (last (date_candidates L df r)), Some (last (hours_candidates L df r))))
   \<and> ((\<forall>r < min 10 (length df). \<not> qualifies L df r) \<longrightarrow>
      detect_headers L df = (None, None, None))"
proof (intro conjI impI)
  assume a: "r < min 10 (length df) \<and> qualifies L df r \<and> (\<forall>r' < r. \<not> qualifies L df r')"
  then have window: "[0..<min 10 (length df)] = [0..<r] @ r # [Suc r..<min 10 (length df)]"
    using upt_add_eq_append [of 0 r "min 10 (length df) - r"]
      upt_conv_Cons [of r "min 10 (length df)"]
    by simp
  have "scan_rows L df ([0..<r] @ r # [Suc r..<min 10 (length df)]) =
      (Some r, Some (last (date_candidates L df r)), Some (last (hours_candidates L df r)))"
    using a by (intro scan_rows_first) auto
  then show "detect_headers L df =
      (Some r, Some (last (date_candidates L df r)), Some (last (hours_candidates L df r)))"
    by (simp add: detect_headers_def window)
next
  assume "\<forall>r < min 10 (length df). \<not> qualifies L df r"
  then show "detect_headers L df = (None, None, None)"
    unfolding detect_headers_def by (intro scan_rows_none) auto
qed

theorem detect_headers_first_row_witness:
  "detect_headers demo_library demo_grid = (Some 1, Some 2, Some 2)
   \<and> detect_headers demo_library [[Text ''Timesheet'']] = (None, None, None)"
proof -
  have q0: "\<not> qualifies demo_library demo_grid 0" by code_simp
  have q1: "qualifies demo_library demo_grid 1" by code_simp
  have l: "length demo_grid = 2" by code_simp
  have d: "last (date_candidates demo_library demo_grid 1) = 2" by code_simp
  have h: "last (hours_candidates demo_library demo_grid 1) = 2" by code_simp
  have n0: "\<not> qualifies demo_library [[Text ''Timesheet'']] 0" by code_simp
  have a: "detect_headers demo_library demo_grid = (Some 1, Some 2, Some 2)"
    using detect_headers_first_row [of 1 demo_grid demo_library] q0 q1 l d h by simp
  have b: "detect_headers demo_library [[Text ''Timesheet'']] = (None, None, None)"
    using detect_headers_first_row [of 0 "[[Text ''Timesheet'']]" demo_library] n0 by simp
  show ?thesis using a b by simp
qed

text \<open>
  C5, as stated: every location that \<^verbatim>\<open>detect_headers\<close> returns has a date column that
  differs from its hours column. It fails on a header cell that holds a keyword of both
  sets: \<open>Workday\<close> contains \<open>work\<close> and \<open>day\<close>.
\<close>

theorem detect_headers_same_column:
  "detect_headers demo_library [[Text ''Workday''], [Text ''2024-01-05'']] = (Some 0, Some 0, Some 0)"
  by code_simp

text \<open>
  C5, amended: every location that \<^verbatim>\<open>detect_headers\<close> returns has a row below 10 and
  inside the frame, a date column and an hours column inside the frame, a date keyword in
  the cell of the date column and an hours keyword in the cell of the hours column. The two
  columns may be the same one.
\<close>

theorem detect_headers_location:
  assumes "detect_headers L df = (Some r, dc, hc)"
  shows "r < 10 \<and> r < length df \<and>
    (\<exists>d h. dc = Some d \<and> hc = Some h \<and> d < ncols df \<and> h < ncols df \<and>
       any_keyword date_keywords (cell_text L df r d) \<and>
       any_keyword hours_keywords (cell_text L df r h))"
proof -
  have found: "r < min 10 (length df) \<and> qualifies L df r
      \<and> dc = Some (last (date_candidates L df r))
      \<and> hc = Some (last (hours_candidates L df r))"
    using assms by (rule detect_headers_found)
  then have "last (date_candidates L df r) \<in> set (date_candidates L df r)"
    and "last (hours_candidates L df r) \<in> set (hours_candidates L df r)"
    by (simp_all add: qualifies_def)
  then have "last (date_candidates L df r) < ncols df
      \<and> any_keyword date_keywords (cell_text L df r (last (date_candidates L df r)))"
    and "last (hours_candidates L df r) < ncols df
      \<and> any_keyword hours_keywords (cell_text L df r (last (hours_candidates L df r)))"
    by (simp_all add: date_candidates_def hours_candidates_def)
  with found show ?thesis by auto
qed

theorem detect_headers_location_witness:
  "detect_headers demo_library demo_grid = (Some 1, Some 2, Some 2) \<and> (1::nat) < 10
   \<and> 1 < length demo_grid \<and> 2 < ncols demo_grid
   \<and> any_keyword date_keywords (cell_text demo_library demo_grid 1 2)
   \<and> any_keyword hours_keywords (cell_text demo_library demo_grid 1 2)"
proof -
  have run: "detect_headers demo_library demo_grid = (Some 1, Some 2, Some 2)" by code_simp
  show ?thesis using detect_headers_location [OF run] run by simp
qed

section \<open>Properties of NameInferer and EntryFilter\<close>


























text \<open>
  C6: an entry whose base name starts with a dot, inside a folder, is a hidden file, and
  \<^verbatim>\<open>is_valid_excel_file\<close> accepts it: only a dot at the start of the whole entry name, the
  name \<open>.DS_Store\<close> after a separator and the pair \<open>._\<close> are looked for.
\<close>

theorem nested_hidden_file_accepted:
  "is_valid_excel_file ''timesheets/.hidden.xlsx''"
  by code_simp

text \<open>
  C10: every entry name that contains the two characters \<open>._\<close>, wherever they are, is
  refused by \<^verbatim>\<open>is_valid_excel_file\<close>; \<open>report._v2.xlsx\<close> is such a name.
\<close>

theorem dot_underscore_rejected:
  "contains filename ''._'' \<Longrightarrow> \<not> is_valid_excel_file filename"
  by (simp add: is_valid_excel_file_def)

theorem dot_underscore_rejected_witness:
  "contains ''report._v2.xlsx'' ''._'' \<and> \<not> is_valid_excel_file ''report._v2.xlsx''"
proof -
  have h: "contains ''report._v2.xlsx'' ''._''" by code_simp
  show ?thesis using h dot_underscore_rejected [OF h] by simp
qed

section \<open>Properties of RecordExtractor\<close>



lemma row_valid_iff:
  "row_valid L df dc hc r \<longleftrightarrow>
     clean_and_parse_date L (iloc df r dc) \<noteq> None \<and>
     (\<exists>h. to_numeric L (iloc df r hc) = Some h \<and> 0 < h)"
  by (auto simp add: row_valid_def split: option.splits)

text \<open>Dates read from a text cell: by one of the ten formats, or by the format-free
  parse of the library.\<close>

lemma parse_text:
  assumes "strip s = s'" "s' \<noteq> []" "s' \<notin> set nat_strings" "try_formats s' date_formats = Some d"
  shows "clean_and_parse_date L (Text s) = Some d" "parsed_zone L (Text s) = Some None"
  using assms by (simp_all add: clean_and_parse_date_def parsed_zone_def Let_def)


lemma try_jan5: "try_formats ''2024-01-05'' date_formats = Some \<lparr>year = 2024, month = 1, day = 5\<rparr>"
  by code_simp

lemma try_jan6: "try_formats ''2024-01-06'' date_formats = Some \<lparr>year = 2024, month = 1, day = 6\<rparr>"
  by code_simp



lemma strip_texts:
  "strip ''2024-01-05'' = ''2024-01-05''" "strip ''2024-01-06'' = ''2024-01-06''"
  "strip ''soon'' = ''soon''"
  "strip ''2024-01-05T10:00:00+02:00'' = ''2024-01-05T10:00:00+02:00''"
  by code_simp+

lemma not_nat_strings:
  "''2024-01-05'' \<notin> set nat_strings" "''2024-01-06'' \<notin> set nat_strings"
  "''soon'' \<notin> set nat_strings" "''2024-01-05T10:00:00+02:00'' \<notin> set nat_strings"
  by (simp_all add: nat_strings_def)

lemmas jan5 = parse_text [OF strip_texts(1) _ not_nat_strings(1) try_jan5, simplified]
lemmas jan6 = parse_text [OF strip_texts(2) _ not_nat_strings(2) try_jan6, simplified]


















section \<open>Properties of BatchProcessor\<close>

lemma process_entry_outcome:
  "process_entry L entries st n =
     (case outcome L entries n of
        Inr data \<Rightarrow> st\<lparr>all_data := all_data st @ [data],
                       processed_files := processed_files st @ [n]\<rparr>
      | Inl error \<Rightarrow> st\<lparr>error_messages := error_messages st @ [error]\<rparr>)"
  by (simp add: process_entry_def outcome_def split: member.splits sum.splits)

text \<open>The loop, started in any state: what it appends to each of the three lists.\<close>

lemma foldl_process_entry:
  "foldl (process_entry L entries) st ns =
     \<lparr>all_data = all_data st @ map (rows_of L entries) (filter (succeeds L entries) ns),
      error_messages = error_messages st
         @ map (error_of L entries) (filter (\<lambda>n. \<not> succeeds L entries n) ns),
      processed_files = processed_files st @ filter (succeeds L entries) ns\<rparr>"
proof (induction ns arbitrary: st)
  case Nil
  show ?case by simp
next
  case (Cons n ns)
  have step: "foldl (process_entry L entries) st (n # ns) =
      foldl (process_entry L entries) (process_entry L entries st n) ns"
    by simp
  show ?case
  proof (cases "outcome L entries n")
    case (Inl e)
    then have "\<not> succeeds L entries n" "error_of L entries n = e"
      by (simp_all add: succeeds_def error_of_def)
    then show ?thesis
      unfolding step Cons.IH by (simp add: process_entry_outcome Inl)
  next
    case (Inr data)
    then have "succeeds L entries n" "rows_of L entries n = data"
      by (simp_all add: succeeds_def rows_of_def)
    then show ?thesis
      unfolding step Cons.IH by (simp add: process_entry_outcome Inr)
  qed
qed

lemma extract_nonempty:
  "extract_data_from_xlsx L wb n = Inr rows \<Longrightarrow> rows \<noteq> []"
  by (auto simp add: extract_data_from_xlsx_def Let_def
      split: sum.splits if_splits prod.splits option.splits)

lemma rows_of_nonempty:
  "succeeds L entries n \<Longrightarrow> rows_of L entries n \<noteq> []"
  by (cases "outcome L entries n")
    (auto simp add: succeeds_def rows_of_def outcome_def split: member.splits
      dest: extract_nonempty)

text \<open>
  C7. When the archive opens and has eligible entries \<open>E\<close> (the names that pass
  \<^verbatim>\<open>is_valid_excel_file\<close>, in the order of the archive), \<^verbatim>\<open>process_zip_file\<close> visits every
  one of them: the processed files are the entries of \<open>E\<close> whose extraction succeeds, the
  errors are one message for each other entry of \<open>E\<close>, so the two lists have as many
  elements together as \<open>E\<close>; the combined rows are the rows of the processed files, one
  block after the other, and no block is empty.
\<close>

theorem process_zip_file_partition:
  assumes "E = filter is_valid_excel_file (map fst entries)" "E \<noteq> []"
  shows "process_zip_file L (Inr entries) =
        (concat (map (rows_of L entries) (filter (succeeds L entries) E)),
         map (error_of L entries) (filter (\<lambda>n. \<not> succeeds L entries n) E),
         filter (succeeds L entries) E,
         filter (\<lambda>f. (endswith f ''.xlsx'' \<or> endswith f ''.xls'') \<and> \<not> is_valid_excel_file f)
           (map fst entries))
      \<and> length (filter (succeeds L entries) E)
          + length (map (error_of L entries) (filter (\<lambda>n. \<not> succeeds L entries n) E)) = length E
      \<and> (\<forall>n \<in> set (filter (succeeds L entries) E). rows_of L entries n \<noteq> [])"
proof -
  have "length (filter (succeeds L entries) E)
      + length (filter (\<lambda>n. \<not> succeeds L entries n) E) = length E"
    by (rule sum_length_filter_compl)
  then show ?thesis
    using assms
    by (simp add: process_zip_file_def Let_def foldl_process_entry rows_of_nonempty)
qed

theorem process_zip_file_partition_witness:
  "process_zip_file demo_library (Inr demo_entries) =
     (rows_of demo_library demo_entries ''john_timesheet.xlsx'',
      [''Could not read mary_timesheet.xlsx: Bad CRC-32'',
       ''Could not detect date/hours columns in: notes.xlsx''],
      [''john_timesheet.xlsx''],
      [''__MACOSX/._john_timesheet.xlsx''])
   \<and> rows_of demo_library demo_entries ''john_timesheet.xlsx'' \<noteq> []"
proof -
  let ?E = "[''john_timesheet.xlsx'', ''mary_timesheet.xlsx'', ''notes.xlsx'']"
  have e: "?E = filter is_valid_excel_file (map fst demo_entries)" by code_simp
  have n: "?E \<noteq> []" by simp
  have ok: "filter (succeeds demo_library demo_entries) ?E = [''john_timesheet.xlsx'']"
    by code_simp
  have bad: "map (error_of demo_library demo_entries)
      (filter (\<lambda>n. \<not> succeeds demo_library demo_entries n) ?E) =
      [''Could not read mary_timesheet.xlsx: Bad CRC-32'',
       ''Could not detect date/hours columns in: notes.xlsx'']"
    by code_simp
  have skipped: "filter (\<lambda>f. (endswith f ''.xlsx'' \<or> endswith f ''.xls'') \<and> \<not> is_valid_excel_file f)
      (map fst demo_entries) = [''__MACOSX/._john_timesheet.xlsx'']"
    by code_simp
  show ?thesis
    using process_zip_file_partition [OF e n, of demo_library]
    unfolding ok bad skipped by simp
qed

section \<open>Properties of the Aggregator\<close>

lemma sum_list_filter_mset:
  "sum_list (map f (filter P xs)) = sum_mset (image_mset f (filter_mset P (mset xs)))"
  by (induction xs) simp_all

lemma length_filter_mset:
  "length (filter P xs) = size (filter_mset P (mset xs))"
  by (induction xs) simp_all

text \<open>The row of a group depends on the rows of the frame, not on their order.\<close>

lemma aggregate_mset:
  assumes "mset df = mset df'"
  shows "aggregate df k = aggregate df' k"
  using assms
  by (simp add: aggregate_def Let_def sum_list_filter_mset length_filter_mset split: prod.splits)

lemma keys_mset:
  assumes "mset df = mset df'"
  shows "sort (remdups (map group_key df)) = sort (remdups (map group_key df'))"
proof -
  have "set (map group_key df) = set (map group_key df')"
    using assms by (metis mset_map set_mset_mset)
  then show ?thesis
    by (metis sorted_list_of_set_sort_remdups)
qed

text \<open>
  In this model, where hours are exact numbers and a sum does not depend on the order of
  its terms, two frames with the same rows in any order have the same monthly summary,
  and the summary is in ascending order of year, month and developer. The sums of the
  source are sums of binary floating point numbers, which the model does not have.
\<close>

lemma exact_summary_order:
  "(mset df = mset df' \<longrightarrow> create_monthly_summary df = create_monthly_summary df')
   \<and> sorted (map (\<lambda>b. (s_Year b, s_Month b, s_Developer b)) (create_monthly_summary df))"
proof (intro conjI impI)
  assume eq: "mset df = mset df'"
  have "aggregate df = aggregate df'"
    by (rule ext) (rule aggregate_mset [OF eq])
  then show "create_monthly_summary df = create_monthly_summary df'"
    by (simp add: create_monthly_summary_def keys_mset [OF eq])
next
  show "sorted (map (\<lambda>b. (s_Year b, s_Month b, s_Developer b)) (create_monthly_summary df))"
    by (simp add: create_monthly_summary_def Let_def)
qed

lemma exact_summary_order_example:
  "create_monthly_summary john_rows = create_monthly_summary (rev john_rows)
   \<and> sorted (map (\<lambda>b. (s_Year b, s_Month b, s_Developer b)) (create_monthly_summary john_rows))"
proof -
  have "mset john_rows = mset (rev john_rows)" by simp
  then show ?thesis
    using exact_summary_order [of john_rows "rev john_rows"] by blast
qed

section \<open>Scenario A, end to end\<close>

lemma john_shape: "length john_grid = 3" "ncols john_grid = 2"
  by code_simp+

lemma john_header_cells:
  "any_keyword date_keywords (strip (lower ''Date''))"
  "\<not> any_keyword hours_keywords (strip (lower ''Date''))"
  "\<not> any_keyword date_keywords (strip (lower ''Hours''))"
  "any_keyword hours_keywords (strip (lower ''Hours''))"
  by code_simp+

lemma john_cells:
  "iloc john_grid 0 0 = Text ''Date''" "iloc john_grid 0 (Suc 0) = Text ''Hours''"
  "iloc john_grid (Suc 0) 0 = Text ''2024-01-05''" "iloc john_grid (Suc 0) (Suc 0) = Number 8"
  "iloc john_grid 2 0 = Text ''2024-01-06''" "iloc john_grid 2 (Suc 0) = Number (15 / 2)"
  by (simp_all add: iloc_def john_grid_def)

lemma john_headers: "detect_headers L john_grid = (Some 0, Some 0, Some 1)"
proof -
  have cols: "[0..<2] = [0, Suc 0]" by (simp add: upt_rec)
  have rows: "[0..<min 10 (length john_grid)] = [0, 1, 2]" by (simp add: john_shape upt_rec)
  have "scan_row L john_grid 0 =
      \<lparr>row_has_date = True, row_has_hours = True, temp_date_col = Some 0, temp_hours_col = Some 1\<rparr>"
    by (simp add: scan_row_def cols scan_cell_def john_shape john_cells john_header_cells
        scan_init_def Let_def)
  then show ?thesis
    by (simp add: detect_headers_def rows Let_def)
qed

lemma john_name: "extract_developer_name ''john_timesheet.xlsx'' = ''John''"
  by code_simp

lemma john_extract:
  "extract_data_from_xlsx L (Inr john_grid) ''john_timesheet.xlsx'' = Inr john_rows"
proof -
  have rows: "[Suc 0..<3] = [Suc 0, 2]" by (simp add: upt_rec)
  have m: "month_name (Suc 0) = ''January''" by (simp add: month_name_def month_names_def)
  have ne: "\<not> empty_frame john_grid" by (simp add: empty_frame_def john_shape)
  have z: "datetimelike L [Text ''2024-01-05'', Text ''2024-01-06'']"
    by (simp add: datetimelike_def List.map_filter_simps jan5 jan6)
  show ?thesis
    by (simp add: extract_data_from_xlsx_def ne john_headers Let_def rows john_cells jan5 jan6
        john_name make_row_def m john_rows_def john_shape z)
qed

lemma labels: "pad4 2024 = ''2024''" "pad2 (Suc 0) = ''01''" "decimal 2024 = ''2024''"
  by code_simp+

lemma john_summary: "create_monthly_summary john_rows =
       [\<lparr>s_Developer = ''John'', s_Year = 2024, s_Month = 1, s_MonthName = ''January'',
         s_YearMonth = (2024, 1), s_Hours = 31 / 2, s_WorkingDays = 2,
         s_YearMonthStr = ''2024-01'', s_MonthYear = ''January 2024''\<rparr>]"
proof -
  let ?k = "(''John'', 2024::nat, 1::nat, ''January'', (2024::nat, 1::nat))"
  have keys: "map group_key john_rows = [?k, ?k]"
    by (simp add: john_rows_def group_key_def)
  have grp: "filter (\<lambda>x. group_key x = ?k) john_rows = john_rows"
    by (simp add: john_rows_def group_key_def)
  have agg: "aggregate john_rows ?k =
      \<lparr>s_Developer = ''John'', s_Year = 2024, s_Month = 1, s_MonthName = ''January'',
         s_YearMonth = (2024, 1), s_Hours = 31 / 2, s_WorkingDays = 2,
         s_YearMonthStr = ''2024-01'', s_MonthYear = ''January 2024''\<rparr>"
    unfolding aggregate_def prod.case Let_def grp
    by (simp add: john_rows_def labels)
  show ?thesis
    unfolding create_monthly_summary_def Let_def keys
    using agg by simp
qed

text \<open>
  C9. The archive whose one member \<open>john_timesheet.xlsx\<close> has the header \<open>Date\<close>,
  \<open>Hours\<close> in row 0 and the rows (2024-01-05, 8) and (2024-01-06, 7.5) gives, with any
  library: one processed file, no error, two rows that carry the developer \<open>John\<close>, and
  one monthly row, for John in January 2024, with 15.5 hours and 2 working days.
\<close>

theorem scenario_a:
  "process_zip_file L john_archive = (john_rows, [], [''john_timesheet.xlsx''], [])
   \<and> list_all (\<lambda>x. Developer x = ''John'') john_rows
   \<and> create_monthly_summary john_rows =
       [\<lparr>s_Developer = ''John'', s_Year = 2024, s_Month = 1, s_MonthName = ''January'',
         s_YearMonth = (2024, 1), s_Hours = 31 / 2, s_WorkingDays = 2,
         s_YearMonthStr = ''2024-01'', s_MonthYear = ''January 2024''\<rparr>]"
proof (intro conjI)
  have v: "is_valid_excel_file ''john_timesheet.xlsx''" by code_simp
  have o: "open_member [(''john_timesheet.xlsx'', Readable (Inr john_grid))] ''john_timesheet.xlsx''
      = Readable (Inr john_grid)"
    by (simp add: open_member_def)
  show "process_zip_file L john_archive = (john_rows, [], [''john_timesheet.xlsx''], [])"
    by (simp add: process_zip_file_def john_archive_def v Let_def process_entry_def o john_extract)
  show "list_all (\<lambda>x. Developer x = ''John'') john_rows"
    by (simp add: john_rows_def)
  show "create_monthly_summary john_rows =
       [\<lparr>s_Developer = ''John'', s_Year = 2024, s_Month = 1, s_MonthName = ''January'',
         s_YearMonth = (2024, 1), s_Hours = 31 / 2, s_WorkingDays = 2,
         s_YearMonthStr = ''2024-01'', s_MonthYear = ''January 2024''\<rparr>]"
    by (rule john_summary)
qed

end
